theory Spec2Isabelle
  imports Complex_Main
begin

section \<open>Strings as sequences of UTF-16 code units\<close>

text \<open>
  A JavaScript string is a sequence of 16-bit code units; a Hebrew letter is one code
  unit (U+05D0 .. U+05EA).  Strings are modelled as lists of code-unit values, ASCII
  literals are written through \<open>ascii\<close>, Hebrew letters by their names.
\<close>

type_synonym jsstring = "nat list"

definition ascii :: "string \<Rightarrow> jsstring" where
  "ascii s = map of_char s"

abbreviation (input) ALEF :: nat where "ALEF \<equiv> 1488"
abbreviation (input) BET :: nat where "BET \<equiv> 1489"
abbreviation (input) GIMEL :: nat where "GIMEL \<equiv> 1490"
abbreviation (input) DALET :: nat where "DALET \<equiv> 1491"
abbreviation (input) HE :: nat where "HE \<equiv> 1492"
abbreviation (input) VAV :: nat where "VAV \<equiv> 1493"
abbreviation (input) HET :: nat where "HET \<equiv> 1495"
abbreviation (input) TET :: nat where "TET \<equiv> 1496"
abbreviation (input) YOD :: nat where "YOD \<equiv> 1497"
abbreviation (input) FINAL_KAF :: nat where "FINAL_KAF \<equiv> 1498"
abbreviation (input) KAF :: nat where "KAF \<equiv> 1499"
abbreviation (input) LAMED :: nat where "LAMED \<equiv> 1500"
abbreviation (input) FINAL_MEM :: nat where "FINAL_MEM \<equiv> 1501"
abbreviation (input) MEM :: nat where "MEM \<equiv> 1502"
abbreviation (input) FINAL_NUN :: nat where "FINAL_NUN \<equiv> 1503"
abbreviation (input) NUN :: nat where "NUN \<equiv> 1504"
abbreviation (input) SAMEKH :: nat where "SAMEKH \<equiv> 1505"
abbreviation (input) AYIN :: nat where "AYIN \<equiv> 1506"
abbreviation (input) FINAL_PE :: nat where "FINAL_PE \<equiv> 1507"
abbreviation (input) PE :: nat where "PE \<equiv> 1508"
abbreviation (input) FINAL_TSADI :: nat where "FINAL_TSADI \<equiv> 1509"
abbreviation (input) TSADI :: nat where "TSADI \<equiv> 1510"
abbreviation (input) QOF :: nat where "QOF \<equiv> 1511"
abbreviation (input) RESH :: nat where "RESH \<equiv> 1512"
abbreviation (input) SHIN :: nat where "SHIN \<equiv> 1513"
abbreviation (input) TAV :: nat where "TAV \<equiv> 1514"
abbreviation (input) SPACE :: nat where "SPACE \<equiv> 32"
abbreviation (input) DQUOTE :: nat where "DQUOTE \<equiv> 34"
abbreviation (input) APOSTROPHE :: nat where "APOSTROPHE \<equiv> 39"

text \<open>
  White space as \<open>String.prototype.trim\<close>, \<open>parseFloat\<close> and the regular-expression
  class \<open>\s\<close> understand it: TAB, LF, VT, FF, CR, SPACE, NBSP, U+1680, U+2000..U+200A,
  U+2028, U+2029, U+202F, U+205F, U+3000 and U+FEFF.
\<close>

definition isWhiteSpace :: "nat \<Rightarrow> bool" where
  "isWhiteSpace c \<longleftrightarrow>
     (9 \<le> c \<and> c \<le> 13) \<or> c = 32 \<or> c = 160 \<or> c = 5760 \<or> (8192 \<le> c \<and> c \<le> 8202) \<or>
     c = 8232 \<or> c = 8233 \<or> c = 8239 \<or> c = 8287 \<or> c = 12288 \<or> c = 65279"

text \<open>The class \<open>\d\<close> is \<open>[0-9]\<close>; \<open>\w\<close> is \<open>[A-Za-z0-9_]\<close>.\<close>

definition isDigit :: "nat \<Rightarrow> bool" where
  "isDigit c \<longleftrightarrow> 48 \<le> c \<and> c \<le> 57"

definition isWordChar :: "nat \<Rightarrow> bool" where
  "isWordChar c \<longleftrightarrow> isDigit c \<or> (65 \<le> c \<and> c \<le> 90) \<or> c = 95 \<or> (97 \<le> c \<and> c \<le> 122)"

definition trim :: "jsstring \<Rightarrow> jsstring" where
  "trim s = rev (dropWhile isWhiteSpace (rev (dropWhile isWhiteSpace s)))"

text \<open>\<open>startsWith s w\<close>: \<open>w\<close> is a prefix of \<open>s\<close>.\<close>

fun startsWith :: "jsstring \<Rightarrow> jsstring \<Rightarrow> bool" where
  "startsWith s [] = True"
| "startsWith [] (y # ys) = False"
| "startsWith (x # xs) (y # ys) = (if x = y then startsWith xs ys else False)"

text \<open>\<open>includesStr s w\<close> is \<open>s.includes(w)\<close>.\<close>

fun includesStr :: "jsstring \<Rightarrow> jsstring \<Rightarrow> bool" where
  "includesStr [] w = (w = [])"
| "includesStr (x # xs) w = (if startsWith (x # xs) w then True else includesStr xs w)"

text \<open>
  \<open>replaceFirst s w r\<close> is \<open>s.replace(w, r)\<close> for a string pattern \<open>w\<close>: only the
  first occurrence is replaced.  The source always replaces by the empty string, so the
  \<open>$\<close> patterns of a replacement string play no role.
\<close>

fun replaceFirst :: "jsstring \<Rightarrow> jsstring \<Rightarrow> jsstring \<Rightarrow> jsstring" where
  "replaceFirst [] w r = (if w = [] then r else [])"
| "replaceFirst (x # xs) w r =
     (if startsWith (x # xs) w then r @ drop (length w) (x # xs)
      else x # replaceFirst xs w r)"

text \<open>
  \<open>toLowerCase\<close>: A..Z go to a..z; of all other code units only the Kelvin sign
  (U+212A, to k) and the dotted capital I (U+0130, to i followed by U+0307) have a
  lower-case form that contains an ASCII letter.  Every other code unit is left as it
  is: its Unicode lower-case form is neither ASCII nor Hebrew, so no word of the tables
  below can tell the difference.
\<close>

definition lowerUnit :: "nat \<Rightarrow> jsstring" where
  "lowerUnit c =
     (if 65 \<le> c \<and> c \<le> 90 then [c + 32]
      else if c = 8490 then [107]
      else if c = 304 then [105, 775]
      else [c])"

definition toLowerCase :: "jsstring \<Rightarrow> jsstring" where
  "toLowerCase s = concat (map lowerUnit s)"

text \<open>
  Matching under the flag \<open>i\<close> (without \<open>u\<close>): two code units match when their
  canonical forms agree, and a non-ASCII unit never has an ASCII canonical form, so for an
  ASCII pattern this is ASCII case folding.
\<close>

definition foldCase :: "nat \<Rightarrow> nat" where
  "foldCase c = (if 97 \<le> c \<and> c \<le> 122 then c - 32 else c)"

fun startsWithCI :: "jsstring \<Rightarrow> jsstring \<Rightarrow> bool" where
  "startsWithCI s [] = True"
| "startsWithCI [] (y # ys) = False"
| "startsWithCI (x # xs) (y # ys) =
     (if foldCase x = foldCase y then startsWithCI xs ys else False)"

section \<open>Numbers\<close>

text \<open>
  A JavaScript number is a double, one of the two infinities, or NaN.  \<open>Num r\<close> stands
  for the double nearest to the rational \<open>r\<close>.  \<open>parseFloat\<close> returns the double
  itself, by its exact value; the tables keep the decimals they are written with, and
  \<open>toDouble\<close> gives the double a value stands for.  A decimal literal of the source and
  the same decimal read by \<open>parseFloat\<close> stand for the same double, as they do in the
  program.
\<close>

datatype number = Num rat | PosInfinity | NegInfinity | NaN

subsection \<open>Rounding to a double\<close>

text \<open>
  \<open>log2floor n\<close>, for \<open>n \<ge> 1\<close>, is the \<open>k\<close> with \<open>2^k \<le> n < 2^(k+1)\<close>;
  \<open>binaryExponent a\<close>, for a positive rational, is the \<open>e\<close> with
  \<open>2^e \<le> a < 2^(e+1)\<close>.
\<close>

function log2floor :: "int \<Rightarrow> int" where
  "log2floor n = (if n < 2 then 0 else 1 + log2floor (n div 2))"
  by pat_completeness auto
termination
  by (relation "measure nat") auto

declare log2floor.simps [simp del]

definition binaryExponent :: "rat \<Rightarrow> int" where
  "binaryExponent a =
     (if 1 \<le> a then log2floor \<lfloor>a\<rfloor>
      else (let m = \<lceil>1 / a\<rceil>
            in - (if m \<le> 1 then 0 else 1 + log2floor (m - 1))))"

definition pow2 :: "int \<Rightarrow> rat" where
  "pow2 e = (if 0 \<le> e then 2 ^ nat e else 1 / 2 ^ nat (- e))"

definition roundHalfEven :: "rat \<Rightarrow> int" where
  "roundHalfEven y =
     (let f = \<lfloor>y\<rfloor>; d = y - of_int f
      in if d < 1 / 2 then f else if 1 / 2 < d then f + 1 else if even f then f else f + 1)"

text \<open>
  The double nearest to a rational (IEEE 754 binary64, round to nearest, ties to even):
  the magnitude is cut to 53 significant bits, to a multiple of \<open>2^(-1074)\<close> below
  \<open>2^(-1022)\<close>, and a result of \<open>2^1024\<close> or more is an infinity.  The two zeros
  are not told apart.
\<close>

definition roundToDouble :: "rat \<Rightarrow> number" where
  "roundToDouble x =
     (if x = 0 then Num 0
      else
        (let a = \<bar>x\<bar>;
             e = max (binaryExponent a) (- 1022);
             n = roundHalfEven (a / pow2 (e - 52))
         in if 1024 \<le> e \<or> (e = 1023 \<and> n = 2 ^ 53)
            then (if x < 0 then NegInfinity else PosInfinity)
            else Num ((if x < 0 then - 1 else 1) * of_int n * pow2 (e - 52))))"

text \<open>The double a value stands for, and the double of a decimal literal of the source.\<close>

definition toDouble :: "number \<Rightarrow> number" where
  "toDouble q = (case q of Num r \<Rightarrow> roundToDouble r | other \<Rightarrow> other)"

definition literal :: "rat \<Rightarrow> number" where
  "literal d = roundToDouble d"

text \<open>\<open>parseInt(ds, 10)\<close> on a string of decimal digits.\<close>

definition digitsValue :: "jsstring \<Rightarrow> nat" where
  "digitsValue ds = foldl (\<lambda>a d. 10 * a + (d - 48)) 0 ds"

text \<open>The quotient of two non-negative integers, as \<open>/\<close> computes it.\<close>

definition numDiv :: "nat \<Rightarrow> nat \<Rightarrow> number" where
  "numDiv a b =
     (if b = 0 then (if a = 0 then NaN else PosInfinity)
      else Num (of_nat a / of_nat b))"

definition numAddNat :: "nat \<Rightarrow> number \<Rightarrow> number" where
  "numAddNat a x = (case x of Num r \<Rightarrow> Num (of_nat a + r) | other \<Rightarrow> other)"

text \<open>
  \<open>parseFloat\<close>: leading white space is skipped, then the longest prefix that is a
  decimal literal is read: an optional sign, then \<open>Infinity\<close> or digits with an
  optional fraction and an optional exponent.  No such prefix gives NaN.  The result is
  the double nearest to the decimal read, an infinity when that is out of range.
\<close>

definition signPart :: "jsstring \<Rightarrow> bool \<times> jsstring" where
  "signPart s =
     (case s of
        [] \<Rightarrow> (False, s)
      | c # r \<Rightarrow> if c = 43 then (False, r) else if c = 45 then (True, r) else (False, s))"

definition exponentPart :: "jsstring \<Rightarrow> int" where
  "exponentPart s =
     (case s of
        [] \<Rightarrow> 0
      | c # r \<Rightarrow>
          if c = 101 \<or> c = 69 then
            (let (neg, r2) = signPart r; ed = takeWhile isDigit r2
             in if ed = [] then 0
                else if neg then - int (digitsValue ed) else int (digitsValue ed))
          else 0)"

definition scale10 :: "rat \<Rightarrow> int \<Rightarrow> rat" where
  "scale10 m e = (if 0 \<le> e then m * 10 ^ nat e else m / 10 ^ nat (- e))"

definition parseFloat :: "jsstring \<Rightarrow> number" where
  "parseFloat s =
     (let (neg, s2) = signPart (dropWhile isWhiteSpace s)
      in if startsWith s2 (ascii ''Infinity'') then (if neg then NegInfinity else PosInfinity)
         else
           (let ip = takeWhile isDigit s2;
                s3 = dropWhile isDigit s2;
                (fp, s4) = (case s3 of
                              [] \<Rightarrow> ([], s3)
                            | c # r \<Rightarrow> if c = 46 then (takeWhile isDigit r, dropWhile isDigit r)
                                       else ([], s3))
            in if ip = [] \<and> fp = [] then NaN
               else
                 (let mant = of_nat (digitsValue ip) + of_nat (digitsValue fp) / 10 ^ length fp;
                      v = scale10 mant (exponentPart s4)
                  in roundToDouble (if neg then - v else v))))"

section \<open>The data model (schemas/recipe)\<close>

datatype UnitCode =
    Cup | Tbsp | Tsp | Ml | L | FlOz
  | G | Kg | Oz | Lb
  | Piece | Slice | Clove | Bunch | Package | Can | Jar | Bag
  | Pinch | Dash | ToTaste | AsNeeded | Unknown

record Ingredient =
  original :: jsstring
  item :: jsstring
  quantity :: "number option"
  unit :: "UnitCode option"
  comments :: "jsstring option"

text \<open>
  The three lookup tables.  \<open>Object.entries\<close> lists the keys in the order they are
  written, so each table is an association list in source order.
\<close>

definition HEBREW_UNIT_MAP :: "(jsstring \<times> UnitCode) list" where
  "HEBREW_UNIT_MAP =
    [([KAF, VAV, SAMEKH], Cup),
     ([KAF, VAV, SAMEKH, VAV, TAV], Cup),
     ([KAF, FINAL_PE], Tbsp),
     ([KAF, PE, VAV, TAV], Tbsp),
     ([KAF, FINAL_PE, SPACE, GIMEL, DALET, VAV, SHIN, HE], Tbsp),
     ([KAF, PE, YOD, TAV], Tsp),
     ([KAF, PE, YOD, VAV, TAV], Tsp),
     ([MEM, DQUOTE, LAMED], Ml),
     ([MEM, YOD, LAMED, YOD, LAMED, YOD, TET, RESH], Ml),
     ([LAMED, YOD, TET, RESH], L),
     ([LAMED, APOSTROPHE], L),
     ([GIMEL, RESH, FINAL_MEM], G),
     ([GIMEL, APOSTROPHE], G),
     ([GIMEL, DQUOTE, RESH], G),
     ([QOF, YOD, LAMED, VAV], Kg),
     ([QOF, DQUOTE, GIMEL], Kg),
     ([QOF, YOD, LAMED, VAV, GIMEL, RESH, FINAL_MEM], Kg),
     ([YOD, HET, YOD, DALET, HE], Piece),
     ([YOD, HET, YOD, DALET, VAV, TAV], Piece),
     ([PE, RESH, VAV, SAMEKH, HE], Slice),
     ([PE, RESH, VAV, SAMEKH, VAV, TAV], Slice),
     ([SHIN, FINAL_NUN], Clove),
     ([SHIN, YOD, NUN, YOD], Clove),
     ([SHIN, YOD, NUN, YOD, YOD, FINAL_MEM], Clove),
     ([TSADI, RESH, VAV, RESH], Bunch),
     ([ALEF, GIMEL, VAV, DALET, HE], Bunch),
     ([HET, BET, YOD, LAMED, HE], Package),
     ([SHIN, QOF, YOD, TAV], Bag),
     ([SHIN, QOF, YOD, VAV, TAV], Bag),
     ([PE, HET, YOD, TAV], Can),
     ([QOF, VAV, PE, SAMEKH, HE], Can),
     ([TSADI, NUN, TSADI, NUN, TAV], Jar),
     ([QOF, VAV, RESH, TET], Pinch),
     ([QOF, MEM, TSADI, VAV, FINAL_TSADI], Pinch),
     ([MEM, AYIN, TET], Dash),
     ([LAMED, PE, YOD, SPACE, HE, TET, AYIN, FINAL_MEM], ToTaste),
     ([LAMED, TET, AYIN, YOD, MEM, HE], ToTaste),
     ([KAF, NUN, DALET, RESH, SHIN], AsNeeded),
     ([LAMED, PE, YOD, SPACE, HE, TSADI, VAV, RESH, FINAL_KAF], AsNeeded)]"

definition HEBREW_FRACTION_MAP :: "(jsstring \<times> number) list" where
  "HEBREW_FRACTION_MAP =
    [([HET, TSADI, YOD], Num (5 / 10)),
     ([RESH, BET, AYIN], Num (25 / 100)),
     ([SHIN, LAMED, YOD, SHIN], Num (333 / 1000)),
     ([SHIN, NUN, YOD, SPACE, SHIN, LAMED, YOD, SHIN], Num (667 / 1000)),
     ([SHIN, LAMED, VAV, SHIN, TAV, SPACE, RESH, BET, AYIN, YOD], Num (75 / 100)),
     ([SHIN, MEM, YOD, NUN, YOD, TAV], Num (125 / 1000))]"

definition HEBREW_NUMBER_MAP :: "(jsstring \<times> number) list" where
  "HEBREW_NUMBER_MAP =
    [([ALEF, HET, DALET], Num 1),
     ([ALEF, HET, TAV], Num 1),
     ([SHIN, NUN, YOD, YOD, FINAL_MEM], Num 2),
     ([SHIN, TAV, YOD, YOD, FINAL_MEM], Num 2),
     ([SHIN, LAMED, VAV, SHIN], Num 3),
     ([SHIN, LAMED, VAV, SHIN, HE], Num 3),
     ([ALEF, RESH, BET, AYIN], Num 4),
     ([ALEF, RESH, BET, AYIN, HE], Num 4),
     ([HET, MEM, SHIN], Num 5),
     ([HET, MEM, YOD, SHIN, HE], Num 5),
     ([SHIN, SHIN], Num 6),
     ([SHIN, YOD, SHIN, HE], Num 6),
     ([SHIN, BET, AYIN], Num 7),
     ([SHIN, BET, AYIN, HE], Num 7),
     ([SHIN, MEM, VAV, NUN, HE], Num 8),
     ([TAV, SHIN, AYIN], Num 9),
     ([TAV, SHIN, AYIN, HE], Num 9),
     ([AYIN, SHIN, RESH], Num 10),
     ([AYIN, SHIN, RESH, HE], Num 10)]"

section \<open>lib/json-ld-parser: the ingredient-line parser\<close>

subsection \<open>Table loops\<close>

text \<open>
  \<open>for (const [word, value] of Object.entries(MAP)) if (s.includes(word)) ...\<close>: the
  first entry, in table order, whose word occurs in \<open>s\<close>.
\<close>

fun firstIncluded :: "jsstring \<Rightarrow> (jsstring \<times> 'a) list \<Rightarrow> (jsstring \<times> 'a) option" where
  "firstIncluded s [] = None"
| "firstIncluded s ((w, v) # es) =
     (if includesStr s w then Some (w, v) else firstIncluded s es)"

text \<open>The first entry whose word is equal to \<open>s\<close>.\<close>

fun firstEqual :: "jsstring \<Rightarrow> (jsstring \<times> 'a) list \<Rightarrow> 'a option" where
  "firstEqual s [] = None"
| "firstEqual s ((w, v) # es) = (if s = w then Some v else firstEqual s es)"

subsection \<open>The regular expressions of the parser\<close>

text \<open>
  \<open>/(\d+)\s*\/\s*(\d+)/\<close>: the leftmost position at which a run of digits, optional
  white space, a slash, optional white space and a run of digits follow each other.  Each
  greedy run is followed by a character outside its class, so no backtracking into a run
  can succeed and the groups are the full runs.
\<close>

definition fractionAt :: "jsstring \<Rightarrow> (jsstring \<times> jsstring) option" where
  "fractionAt s =
     (let a = takeWhile isDigit s
      in if a = [] then None
         else (case dropWhile isWhiteSpace (dropWhile isDigit s) of
                 [] \<Rightarrow> None
               | c # r \<Rightarrow>
                   if c = 47 then
                     (let b = takeWhile isDigit (dropWhile isWhiteSpace r)
                      in if b = [] then None else Some (a, b))
                   else None))"

fun fractionMatch :: "jsstring \<Rightarrow> (jsstring \<times> jsstring) option" where
  "fractionMatch [] = None"
| "fractionMatch (c # cs) =
     (case fractionAt (c # cs) of Some m \<Rightarrow> Some m | None \<Rightarrow> fractionMatch cs)"

text \<open>\<open>/(\d+)\s+(\d+)\s*\/\s*(\d+)/\<close>\<close>

definition mixedAt :: "jsstring \<Rightarrow> (jsstring \<times> jsstring \<times> jsstring) option" where
  "mixedAt s =
     (let a = takeWhile isDigit s; r = dropWhile isDigit s
      in if a = [] \<or> takeWhile isWhiteSpace r = [] then None
         else (case fractionAt (dropWhile isWhiteSpace r) of
                 None \<Rightarrow> None
               | Some (b, c) \<Rightarrow> Some (a, b, c)))"

fun mixedMatch :: "jsstring \<Rightarrow> (jsstring \<times> jsstring \<times> jsstring) option" where
  "mixedMatch [] = None"
| "mixedMatch (c # cs) =
     (case mixedAt (c # cs) of Some m \<Rightarrow> Some m | None \<Rightarrow> mixedMatch cs)"

text \<open>
  \<open>/\(([^)]+)\)/\<close>: the leftmost opening parenthesis that is followed by at least one
  character other than a closing parenthesis and then by a closing parenthesis.  The
  result is the whole match and the group.
\<close>

definition commentAt :: "jsstring \<Rightarrow> (jsstring \<times> jsstring) option" where
  "commentAt s =
     (case s of
        [] \<Rightarrow> None
      | c # cs \<Rightarrow>
          if c = 40 then
            (let body = takeWhile (\<lambda>x. x \<noteq> 41) cs
             in if body \<noteq> [] \<and> dropWhile (\<lambda>x. x \<noteq> 41) cs \<noteq> []
                then Some (40 # body @ [41], body) else None)
          else None)"

fun commentMatch :: "jsstring \<Rightarrow> (jsstring \<times> jsstring) option" where
  "commentMatch [] = None"
| "commentMatch (c # cs) =
     (case commentAt (c # cs) of Some m \<Rightarrow> Some m | None \<Rightarrow> commentMatch cs)"

text \<open>\<open>/^([\d\s/.]+)/\<close>: the leading run of digits, white space, slashes and dots.\<close>

definition numMatch :: "jsstring \<Rightarrow> jsstring option" where
  "numMatch s =
     (let run = takeWhile (\<lambda>c. isDigit c \<or> isWhiteSpace c \<or> c = 47 \<or> c = 46) s
      in if run = [] then None else Some run)"

text \<open>
  \<open>new RegExp(`\\b${unitWord}s?\\b`, 'gi')\<close>.  \<open>\b\<close> holds between a word character
  and a non-word character (or an end of the string).  \<open>unitAt w prev s\<close> tries the
  expression at a position whose left neighbour is \<open>prev\<close> and whose remaining text is
  \<open>s\<close>; it gives the last character consumed and the text after the match.  The
  optional \<open>s\<close> is tried first and given up when no boundary follows it.
\<close>

definition wordBoundary :: "nat option \<Rightarrow> jsstring \<Rightarrow> bool" where
  "wordBoundary prev s \<longleftrightarrow>
     (case prev of None \<Rightarrow> False | Some a \<Rightarrow> isWordChar a) \<noteq>
     (case s of [] \<Rightarrow> False | b # r \<Rightarrow> isWordChar b)"

definition unitAt :: "jsstring \<Rightarrow> nat option \<Rightarrow> jsstring \<Rightarrow> (nat option \<times> jsstring) option" where
  "unitAt w prev s =
     (if wordBoundary prev s \<and> startsWithCI s w then
        (let n = length w;
             lastw = (if n = 0 then prev else Some (s ! (n - 1)));
             r = drop n s;
             plain = (if wordBoundary lastw r then Some (lastw, r) else None)
         in case r of
              [] \<Rightarrow> plain
            | c # r' \<Rightarrow>
                if foldCase c = 83 \<and> wordBoundary (Some c) r' then Some (Some c, r')
                else plain)
      else None)"

text \<open>
  \<open>item.replace(regex, '')\<close> with the flag \<open>g\<close>: every match is removed, the search
  going on after each match.  \<open>skip\<close> counts the characters of the current match that
  are still to be dropped.
\<close>

fun removeFrom :: "jsstring \<Rightarrow> nat option \<Rightarrow> nat \<Rightarrow> jsstring \<Rightarrow> jsstring" where
  "removeFrom w prev skip [] = []"
| "removeFrom w prev skip (c # cs) =
     (if 0 < skip then removeFrom w (Some c) (skip - 1) cs
      else (case unitAt w prev (c # cs) of
              Some (l, r) \<Rightarrow> removeFrom w (Some c) (length (c # cs) - length r - 1) cs
            | None \<Rightarrow> c # removeFrom w (Some c) 0 cs))"

definition removeUnitRegex :: "jsstring \<Rightarrow> jsstring \<Rightarrow> jsstring" where
  "removeUnitRegex w s = removeFrom w None 0 s"

text \<open>\<open>/^(...|of)\s+/i\<close>, the first alternative being the Hebrew word shin-lamed.\<close>

definition stripConnector :: "jsstring \<Rightarrow> jsstring" where
  "stripConnector s =
     (if startsWithCI s [SHIN, LAMED] \<or> startsWithCI s (ascii ''of'') then
        (case drop 2 s of
           [] \<Rightarrow> s
         | c # r \<Rightarrow> if isWhiteSpace c then dropWhile isWhiteSpace r else s)
      else s)"

text \<open>\<open>/^\s*[-...]\s*/\<close> with the hyphen, the en dash (U+2013) and the em dash (U+2014).\<close>

definition stripLeadingDash :: "jsstring \<Rightarrow> jsstring" where
  "stripLeadingDash s =
     (case dropWhile isWhiteSpace s of
        [] \<Rightarrow> s
      | c # r \<Rightarrow> if c = 45 \<or> c = 8211 \<or> c = 8212 then dropWhile isWhiteSpace r else s)"

text \<open>
  \<open>.replace(/\s+/g, ' ')\<close>: each maximal run of white space becomes one space;
  \<open>inRun\<close> tells that the previous character already belonged to the run.
\<close>

fun collapseFrom :: "bool \<Rightarrow> jsstring \<Rightarrow> jsstring" where
  "collapseFrom inRun [] = []"
| "collapseFrom inRun (c # cs) =
     (if isWhiteSpace c then (if inRun then collapseFrom True cs else 32 # collapseFrom True cs)
      else c # collapseFrom False cs)"

definition collapseWhitespace :: "jsstring \<Rightarrow> jsstring" where
  "collapseWhitespace s = collapseFrom False s"

subsection \<open>parseHebrewNumber\<close>

definition parseHebrewNumber :: "jsstring \<Rightarrow> number option" where
  "parseHebrewNumber text =
     (let trimmed = toLowerCase (trim text)
      in case firstIncluded trimmed HEBREW_FRACTION_MAP of
           Some (word, v) \<Rightarrow> Some v
         | None \<Rightarrow>
             (case firstEqual trimmed HEBREW_NUMBER_MAP of
                Some v \<Rightarrow> Some v
              | None \<Rightarrow>
                  (let num = parseFloat trimmed
                   in if num \<noteq> NaN then Some num
                      else (case fractionMatch trimmed of
                              Some (a, b) \<Rightarrow> Some (numDiv (digitsValue a) (digitsValue b))
                            | None \<Rightarrow>
                                (case mixedMatch trimmed of
                                   Some (a, b, c) \<Rightarrow>
                                     Some (numAddNat (digitsValue a)
                                             (numDiv (digitsValue b) (digitsValue c)))
                                 | None \<Rightarrow> None)))))"

subsection \<open>parseUnit\<close>

definition englishUnits :: "(jsstring \<times> UnitCode) list" where
  "englishUnits =
    [(ascii ''cup'', Cup), (ascii ''cups'', Cup),
     (ascii ''tablespoon'', Tbsp), (ascii ''tablespoons'', Tbsp), (ascii ''tbsp'', Tbsp),
     (ascii ''teaspoon'', Tsp), (ascii ''teaspoons'', Tsp), (ascii ''tsp'', Tsp),
     (ascii ''gram'', G), (ascii ''grams'', G), (ascii ''g'', G),
     (ascii ''kilogram'', Kg), (ascii ''kilograms'', Kg), (ascii ''kg'', Kg),
     (ascii ''ml'', Ml), (ascii ''milliliter'', Ml), (ascii ''milliliters'', Ml),
     (ascii ''liter'', L), (ascii ''liters'', L), (ascii ''l'', L),
     (ascii ''ounce'', Oz), (ascii ''ounces'', Oz), (ascii ''oz'', Oz),
     (ascii ''pound'', Lb), (ascii ''pounds'', Lb), (ascii ''lb'', Lb), (ascii ''lbs'', Lb),
     (ascii ''piece'', Piece), (ascii ''pieces'', Piece),
     (ascii ''slice'', Slice), (ascii ''slices'', Slice),
     (ascii ''clove'', Clove), (ascii ''cloves'', Clove),
     (ascii ''bunch'', Bunch), (ascii ''package'', Package), (ascii ''can'', Can),
     (ascii ''jar'', Jar), (ascii ''bag'', Bag), (ascii ''pinch'', Pinch),
     (ascii ''dash'', Dash)]"

definition parseUnit :: "jsstring \<Rightarrow> UnitCode option" where
  "parseUnit text =
     (let trimmed = toLowerCase (trim text)
      in case firstIncluded trimmed HEBREW_UNIT_MAP of
           Some (hebrewUnit, code) \<Rightarrow> Some code
         | None \<Rightarrow>
             (case firstIncluded trimmed englishUnits of
                Some (u, code) \<Rightarrow> Some code
              | None \<Rightarrow> None))"

subsection \<open>parseIngredient\<close>

text \<open>The array \<open>englishUnits\<close> local to \<open>parseIngredient\<close>.\<close>

definition englishUnitWords :: "jsstring list" where
  "englishUnitWords =
    [ascii ''cup'', ascii ''cups'', ascii ''tablespoon'', ascii ''tablespoons'', ascii ''tbsp'',
     ascii ''teaspoon'', ascii ''teaspoons'', ascii ''tsp'', ascii ''gram'', ascii ''grams'',
     ascii ''g'', ascii ''kilogram'', ascii ''kilograms'', ascii ''kg'', ascii ''ml'',
     ascii ''milliliter'', ascii ''milliliters'', ascii ''liter'', ascii ''liters'', ascii ''l'',
     ascii ''ounce'', ascii ''ounces'', ascii ''oz'', ascii ''pound'', ascii ''pounds'',
     ascii ''lb'', ascii ''lbs'', ascii ''piece'', ascii ''pieces'', ascii ''slice'',
     ascii ''slices'', ascii ''clove'', ascii ''cloves'', ascii ''bunch'', ascii ''package'',
     ascii ''can'', ascii ''jar'', ascii ''bag'', ascii ''pinch'', ascii ''dash'']"

text \<open>Lines 187-192: the comment in parentheses and the text without it.\<close>

definition extractComment :: "jsstring \<Rightarrow> jsstring option \<times> jsstring" where
  "extractComment orig =
     (case commentMatch orig of
        Some (whole, body) \<Rightarrow> (Some body, trim (replaceFirst orig whole []))
      | None \<Rightarrow> (None, orig))"

text \<open>
  Lines 194-213: the Hebrew fraction words first, in table order; only when none occurs,
  the leading numeral run.
\<close>

definition extractQuantity :: "jsstring \<Rightarrow> number option \<times> jsstring" where
  "extractQuantity txt =
     (case firstIncluded txt HEBREW_FRACTION_MAP of
        Some (word, v) \<Rightarrow> (Some v, trim (replaceFirst txt word []))
      | None \<Rightarrow>
          (case numMatch txt of
             None \<Rightarrow> (None, txt)
           | Some run \<Rightarrow>
               (case parseHebrewNumber run of
                  None \<Rightarrow> (None, txt)
                | Some q \<Rightarrow> (Some q, trim (drop (length run) txt)))))"

text \<open>
  Lines 215-237: when a unit was recognised, the first Hebrew unit word (in table order)
  that occurs is removed once, then every English unit word is removed as a whole word.
\<close>

definition removeHebrewUnit :: "jsstring \<Rightarrow> jsstring" where
  "removeHebrewUnit txt =
     (case firstIncluded txt HEBREW_UNIT_MAP of
        Some (unitWord, code) \<Rightarrow> trim (replaceFirst txt unitWord [])
      | None \<Rightarrow> txt)"

definition removeEnglishUnits :: "jsstring \<Rightarrow> jsstring" where
  "removeEnglishUnits txt =
     foldl (\<lambda>it unitWord. trim (removeUnitRegex unitWord it)) txt englishUnitWords"

definition extractUnit :: "jsstring \<Rightarrow> UnitCode option \<times> jsstring" where
  "extractUnit txt =
     (case parseUnit txt of
        None \<Rightarrow> (None, txt)
      | Some u \<Rightarrow> (Some u, removeEnglishUnits (removeHebrewUnit txt)))"

text \<open>Lines 239-244.\<close>

definition cleanItem :: "jsstring \<Rightarrow> jsstring" where
  "cleanItem txt = trim (collapseWhitespace (stripLeadingDash (stripConnector txt)))"

text \<open>
  The values of the variables \<open>item\<close>, \<open>quantity\<close>, \<open>unit\<close> and \<open>comments\<close>
  when the \<open>return\<close> statement is reached.
\<close>

definition workingValues ::
  "jsstring \<Rightarrow> jsstring \<times> number option \<times> UnitCode option \<times> jsstring option" where
  "workingValues orig =
     (let (comm, item0) = extractComment orig;
          (qty, item1) = extractQuantity item0;
          (u, item2) = extractUnit item1
      in (cleanItem item2, qty, u, comm))"

text \<open>The \<open>return\<close> statement: \<open>item: item || original\<close>.\<close>

definition parseIngredient :: "jsstring \<Rightarrow> Ingredient" where
  "parseIngredient ingredientStr =
     (let orig = trim ingredientStr;
          (item3, qty, u, comm) = workingValues orig
      in \<lparr> original = orig,
           item = (if item3 = [] then orig else item3),
           quantity = qty,
           unit = u,
           comments = comm \<rparr>)"

section \<open>lib/format: formatQuantity\<close>

subsection \<open>Printing numbers\<close>

text \<open>
  Decimal digits of a non-negative integer, and \<open>Number.prototype.toString\<close> on an
  integer value.  The digits are those of the exact value, which is what JavaScript
  prints for an integer of magnitude up to \<open>2^53\<close>; beyond that it prints the shortest
  digits that read back as the same double, and exponent notation from \<open>10^21\<close> on.
  The statements below are made for magnitudes below \<open>2^53\<close> only.
\<close>

fun natToString :: "nat \<Rightarrow> jsstring" where
  "natToString n = (if n < 10 then [48 + n] else natToString (n div 10) @ [48 + n mod 10])"

declare natToString.simps [simp del]

definition intToString :: "int \<Rightarrow> jsstring" where
  "intToString i = (if i < 0 then 45 # natToString (nat (- i)) else natToString (nat i))"

text \<open>
  \<open>x.toFixed(1)\<close> on a double given by its exact value: a non-finite value prints as
  its name.  Otherwise the sign is split off, \<open>n\<close> is the integer for which
  \<open>n / 10\<close> is closest to the magnitude (the larger one on a tie), and the digits of
  \<open>n\<close>, padded to two, get a point before the last one.  (From \<open>10^21\<close> on
  JavaScript prints as \<open>toString\<close> does; the statements below stay below \<open>2^53\<close>.)
\<close>

definition toFixed1 :: "number \<Rightarrow> jsstring" where
  "toFixed1 x =
     (case x of
        NaN \<Rightarrow> ascii ''NaN''
      | PosInfinity \<Rightarrow> ascii ''Infinity''
      | NegInfinity \<Rightarrow> ascii ''-Infinity''
      | Num r \<Rightarrow>
          (let n = nat \<lfloor>\<bar>r\<bar> * 10 + 1 / 2\<rfloor>;
               m = natToString n;
               m' = (if length m \<le> 1 then 48 # m else m)
           in (if r < 0 then [45] else []) @ butlast m' @ [46, last m']))"

text \<open>\<open>.replace(/\.0$/, '')\<close>\<close>

definition stripDotZero :: "jsstring \<Rightarrow> jsstring" where
  "stripDotZero s =
     (if 2 \<le> length s \<and> drop (length s - 2) s = [46, 48] then take (length s - 2) s else s)"

text \<open>
  The block "Mixed numbers", on a double: taken when \<open>quantity > 1\<close>.  The difference
  of a double above 1 and its whole part is a double again, so the subtraction does not
  round.  For \<open>Infinity\<close> the whole part is \<open>Infinity\<close> and the fraction is NaN, which
  equals nothing.
\<close>

definition mixedNumber :: "number \<Rightarrow> jsstring option" where
  "mixedNumber q =
     (case q of
        Num x \<Rightarrow>
          if 1 < x then
            (let whole = \<lfloor>x\<rfloor>; frac = Num (x - of_int whole)
             in if frac = literal (25 / 100) then Some (intToString whole @ [188])
                else if frac = literal (5 / 10) then Some (intToString whole @ [189])
                else if frac = literal (75 / 100) then Some (intToString whole @ [190])
                else None)
          else None
      | other \<Rightarrow> None)"

definition isInteger :: "number \<Rightarrow> bool" where
  "isInteger q = (case q of Num r \<Rightarrow> of_int \<lfloor>r\<rfloor> = r | other \<Rightarrow> False)"

definition numberToString :: "number \<Rightarrow> jsstring" where
  "numberToString q =
     (case q of
        Num r \<Rightarrow> intToString \<lfloor>r\<rfloor>
      | PosInfinity \<Rightarrow> ascii ''Infinity''
      | NegInfinity \<Rightarrow> ascii ''-Infinity''
      | NaN \<Rightarrow> ascii ''NaN'')"

text \<open>
  \<open>formatQuantity\<close>.  The argument reaches the function as a double, and every
  constant it is compared with is the double of the literal written in the source.  The
  glyphs are single code units: U+00BC (one quarter), U+2153 (one third), U+00BD (one
  half), U+2154 (two thirds), U+00BE (three quarters).  \<open>numberToString\<close> is only
  reached for integer values.
\<close>

definition formatQuantity :: "number option \<Rightarrow> jsstring" where
  "formatQuantity qty =
     (case qty of
        None \<Rightarrow> []
      | Some q0 \<Rightarrow>
          (let q = toDouble q0
           in if q = literal (25 / 100) then [188]
              else if q = literal (333 / 1000) \<or> q = literal (33 / 100) then [8531]
              else if q = literal (5 / 10) then [189]
              else if q = literal (667 / 1000) \<or> q = literal (66 / 100) then [8532]
              else if q = literal (75 / 100) then [190]
              else (case mixedNumber q of
                      Some s \<Rightarrow> s
                    | None \<Rightarrow>
                        if isInteger q then numberToString q
                        else stripDotZero (toFixed1 q))))"


section \<open>Recipes and extraction results (schemas/recipe)\<close>

datatype Language = He | En | Mixed

text \<open>The method tags \<open>'json-ld'\<close>, \<open>'llm'\<close> and \<open>'hybrid'\<close>.\<close>

datatype ExtractionMethod = JsonLd | LLM | Hybrid

datatype Kashrut = Parve | Dairy | Meat | NotKosher | KashrutUnknown

datatype Difficulty = Easy | Medium | Hard | DifficultyUnknown

record RecipeMeta =
  prepTime :: "number option"
  cookTime :: "number option"
  totalTime :: "number option"
  servings :: "number option"
  difficulty :: Difficulty
  cuisine :: "jsstring option"
  category :: "jsstring option"
  dietary :: "jsstring list"

record Nutrition =
  calories :: "number option"
  protein :: "number option"
  carbohydrates :: "number option"
  fat :: "number option"
  fiber :: "number option"
  sodium :: "number option"

text \<open>
  \<open>Recipe\<close>.  The optional fields \<open>nutrition\<close>, \<open>kashrut\<close> and \<open>rawText\<close> are
  options; the optional \<open>id\<close> is never set by the pipeline and is left out.
\<close>

record Recipe =
  title :: jsstring
  description :: "jsstring option"
  language :: Language
  sourceUrl :: jsstring
  imageUrl :: "jsstring option"
  author :: "jsstring option"
  datePublished :: "jsstring option"
  ingredients :: "Ingredient list"
  steps :: "jsstring list"
  tips :: "jsstring list"
  meta :: RecipeMeta
  nutrition :: "Nutrition option"
  extractionMethod :: ExtractionMethod
  confidence :: rat
  kashrut :: "Kashrut option"
  rawText :: "jsstring option"

text \<open>
  \<open>Partial<Recipe>\<close>: every field may be absent.  The code only tests these fields
  for truthiness, so \<open>undefined\<close> and \<open>null\<close> are both \<open>None\<close>.
\<close>

record PartialRecipe =
  p_title :: "jsstring option"
  p_description :: "jsstring option"
  p_language :: "Language option"
  p_sourceUrl :: "jsstring option"
  p_imageUrl :: "jsstring option"
  p_author :: "jsstring option"
  p_datePublished :: "jsstring option"
  p_ingredients :: "Ingredient list option"
  p_steps :: "jsstring list option"
  p_tips :: "jsstring list option"
  p_meta :: "RecipeMeta option"
  p_nutrition :: "Nutrition option"
  p_extractionMethod :: "ExtractionMethod option"
  p_confidence :: "rat option"
  p_kashrut :: "Kashrut option"
  p_rawText :: "jsstring option"

record ExtractionResult =
  success :: bool
  recipe :: "Recipe option"
  error :: "jsstring option"
  warnings :: "jsstring list"
  processingTimeMs :: int

text \<open>Truthiness of an optional string: absent and empty strings are falsy.\<close>

definition truthy :: "jsstring option \<Rightarrow> bool" where
  "truthy x = (case x of None \<Rightarrow> False | Some s \<Rightarrow> s \<noteq> [])"

text \<open>\<open>s || null\<close> on an optional string.\<close>

definition strOrNull :: "jsstring option \<Rightarrow> jsstring option" where
  "strOrNull x = (if truthy x then x else None)"

text \<open>\<open>x || d\<close> on an optional string, and on an optional object or array.\<close>

definition strOr :: "jsstring option \<Rightarrow> jsstring \<Rightarrow> jsstring" where
  "strOr x d = (case x of None \<Rightarrow> d | Some s \<Rightarrow> if s = [] then d else s)"

definition objOr :: "'a option \<Rightarrow> 'a \<Rightarrow> 'a" where
  "objOr x d = (case x of None \<Rightarrow> d | Some v \<Rightarrow> v)"

subsection \<open>isValidRecipe (lib/json-ld-parser)\<close>

definition isValidRecipe :: "PartialRecipe option \<Rightarrow> bool" where
  "isValidRecipe r =
     (case r of
        None \<Rightarrow> False
      | Some p \<Rightarrow>
          truthy (p_title p) \<and>
          (case p_ingredients p of None \<Rightarrow> False | Some is \<Rightarrow> 0 < length is) \<and>
          (case p_steps p of None \<Rightarrow> False | Some ss \<Rightarrow> 0 < length ss))"

section \<open>services/llm-parser\<close>

text \<open>
  A thrown value is an \<open>Error\<close> with its message or something else;
  \<open>error instanceof Error ? error.message : 'Unknown error'\<close>.
\<close>

datatype thrown = Error jsstring | NonError

definition errorMessage :: "thrown \<Rightarrow> jsstring" where
  "errorMessage e = (case e of Error m \<Rightarrow> m | NonError \<Rightarrow> ascii ''Unknown error'')"

text \<open>The object the model call returns, of the shape \<open>LLMRecipeSchema\<close>.\<close>

record LLMObject =
  o_title :: jsstring
  o_description :: "jsstring option"
  o_language :: Language
  o_ingredients :: "Ingredient list"
  o_steps :: "jsstring list"
  o_tips :: "jsstring list"
  o_kashrut :: Kashrut
  o_meta :: RecipeMeta

record FetchResult =
  html :: jsstring
  cleanedText :: jsstring

text \<open>
  What lies outside the program: whether \<open>new URL(url)\<close> accepts the address, the page
  fetcher, the model call \<open>generateObject\<close> as a function of the text and the partial
  record put into the prompt, the environment variable \<open>ANTHROPIC_API_KEY\<close>, the
  regular-expression scan of the page for an image, and the two clock readings.  The page
  parser \<open>parseRecipeFromHtml\<close> of lib/json-ld-parser works on what the HTML and JSON
  libraries make of the page: it returns a value of its declared type
  \<open>Partial<Recipe> | null\<close>, or it throws a \<open>TypeError\<close> when the JSON-LD object of
  the page has a field of another shape than the declared one (\<open>recipeIngredient\<close> a
  string, \<open>prepTime\<close> or \<open>calories\<close> a number, \<open>name\<close> a number), since the
  object is cast to its type unchecked.  Console output is not modelled.
\<close>

record World =
  urlIsValid :: "jsstring \<Rightarrow> bool"
  smartFetch :: "jsstring \<Rightarrow> nat \<Rightarrow> thrown + FetchResult"
  parseRecipeFromHtml :: "jsstring \<Rightarrow> jsstring \<Rightarrow> thrown + PartialRecipe option"
  generateObject :: "jsstring \<Rightarrow> PartialRecipe option \<Rightarrow> thrown + LLMObject"
  ANTHROPIC_API_KEY :: "jsstring option"
  extractImageFromHtml :: "jsstring \<Rightarrow> jsstring option"
  startTime :: int
  endTime :: int

definition hasApiKey :: "World \<Rightarrow> bool" where
  "hasApiKey w \<longleftrightarrow> truthy (ANTHROPIC_API_KEY w)"

definition truncateText :: "jsstring \<Rightarrow> jsstring" where
  "truncateText raw =
     (if 15000 < length raw
      then take 15000 raw @ [10, 10] @ ascii ''[Content truncated...]''
      else raw)"

text \<open>
  \<open>parseWithLLM\<close>: a failure of the model call is thrown again as an \<open>Error\<close> with
  the prefixed message; otherwise the recipe is built from the returned object and, where
  a partial record was passed, from its image, author, date and nutrition.
\<close>

definition parseWithLLM ::
  "World \<Rightarrow> jsstring \<Rightarrow> jsstring \<Rightarrow> PartialRecipe option \<Rightarrow> thrown + Recipe" where
  "parseWithLLM w raw url partialData =
     (let truncatedText = truncateText raw
      in case generateObject w truncatedText partialData of
           Inl e \<Rightarrow> Inl (Error (ascii ''Failed to parse recipe with LLM: '' @ errorMessage e))
         | Inr obj \<Rightarrow>
             Inr \<lparr> title = o_title obj,
                   description = o_description obj,
                   language = o_language obj,
                   sourceUrl = url,
                   imageUrl = (case partialData of None \<Rightarrow> None
                               | Some p \<Rightarrow> strOrNull (p_imageUrl p)),
                   author = (case partialData of None \<Rightarrow> None
                             | Some p \<Rightarrow> strOrNull (p_author p)),
                   datePublished = (case partialData of None \<Rightarrow> None
                                    | Some p \<Rightarrow> strOrNull (p_datePublished p)),
                   ingredients = o_ingredients obj,
                   steps = o_steps obj,
                   tips = o_tips obj,
                   meta = \<lparr> prepTime = prepTime (o_meta obj),
                            cookTime = cookTime (o_meta obj),
                            totalTime = totalTime (o_meta obj),
                            servings = servings (o_meta obj),
                            difficulty = difficulty (o_meta obj),
                            cuisine = cuisine (o_meta obj),
                            category = category (o_meta obj),
                            dietary = dietary (o_meta obj) \<rparr>,
                   nutrition = (case partialData of None \<Rightarrow> None | Some p \<Rightarrow> p_nutrition p),
                   extractionMethod = (case partialData of None \<Rightarrow> LLM | Some p \<Rightarrow> Hybrid),
                   confidence = (case partialData of None \<Rightarrow> 75 / 100 | Some p \<Rightarrow> 85 / 100),
                   kashrut = Some (o_kashrut obj),
                   rawText = Some truncatedText \<rparr>)"

text \<open>The test \<open>hasGoodData\<close> of \<open>refineRecipe\<close>.\<close>

definition hasGoodData :: "PartialRecipe \<Rightarrow> bool" where
  "hasGoodData p \<longleftrightarrow>
     truthy (p_title p) \<and>
     (case p_ingredients p of None \<Rightarrow> False | Some is \<Rightarrow> 2 \<le> length is) \<and>
     (case p_steps p of None \<Rightarrow> False | Some ss \<Rightarrow> 2 \<le> length ss)"

definition refineRecipe ::
  "World \<Rightarrow> PartialRecipe \<Rightarrow> jsstring \<Rightarrow> jsstring \<Rightarrow> thrown + Recipe" where
  "refineRecipe w p raw url =
     (if hasGoodData p then parseWithLLM w raw url (Some p)
      else parseWithLLM w raw url None)"

section \<open>services/extractor\<close>

record ExtractorOptions =
  useLlm :: bool
  forceRefresh :: bool
  timeout :: nat
  verbose :: bool

definition DEFAULT_OPTIONS :: ExtractorOptions where
  "DEFAULT_OPTIONS = \<lparr> useLlm = True, forceRefresh = False, timeout = 30000, verbose = False \<rparr>"

definition failure :: "World \<Rightarrow> jsstring \<Rightarrow> jsstring list \<Rightarrow> ExtractionResult" where
  "failure w msg ws =
     \<lparr> success = False, recipe = None, error = Some msg, warnings = ws,
       processingTimeMs = endTime w - startTime w \<rparr>"

definition succeeded :: "World \<Rightarrow> Recipe \<Rightarrow> jsstring list \<Rightarrow> ExtractionResult" where
  "succeeded w r ws =
     \<lparr> success = True, recipe = Some r, error = None, warnings = ws,
       processingTimeMs = endTime w - startTime w \<rparr>"

text \<open>Lines 119-143: the recipe made from the structured record alone.\<close>

definition jsonLdOnly :: "PartialRecipe \<Rightarrow> jsstring \<Rightarrow> Recipe" where
  "jsonLdOnly p url =
     \<lparr> title = strOr (p_title p) (ascii ''Untitled Recipe''),
       description = strOrNull (p_description p),
       language = objOr (p_language p) En,
       sourceUrl = url,
       imageUrl = strOrNull (p_imageUrl p),
       author = strOrNull (p_author p),
       datePublished = strOrNull (p_datePublished p),
       ingredients = objOr (p_ingredients p) [],
       steps = objOr (p_steps p) [],
       tips = objOr (p_tips p) [],
       meta = objOr (p_meta p)
                \<lparr> prepTime = None, cookTime = None, totalTime = None, servings = None,
                  difficulty = DifficultyUnknown, cuisine = None, category = None,
                  dietary = [] \<rparr>,
       nutrition = p_nutrition p,
       extractionMethod = JsonLd,
       confidence = 9 / 10,
       kashrut = None,
       rawText = None \<rparr>"

text \<open>
  Lines 92-152, reached when \<open>isValidRecipe\<close> holds.  \<open>warnings\<close> is empty when this
  block is entered; the handler of the refinement pushes one warning and control falls
  through to the structured-only result.
\<close>

definition structuredPath ::
  "World \<Rightarrow> ExtractorOptions \<Rightarrow> jsstring \<Rightarrow> FetchResult \<Rightarrow> PartialRecipe \<Rightarrow> ExtractionResult" where
  "structuredPath w opts url fr p =
     (if useLlm opts \<and> hasApiKey w then
        (case refineRecipe w p (cleanedText fr) url of
           Inr refinedRecipe \<Rightarrow> succeeded w refinedRecipe []
         | Inl e \<Rightarrow>
             succeeded w (jsonLdOnly p url)
               ([] @ [ascii ''LLM refinement failed: '' @ errorMessage e]))
      else succeeded w (jsonLdOnly p url) [])"

text \<open>Lines 154-206, reached when there is no valid structured record.\<close>

definition aiPath ::
  "World \<Rightarrow> ExtractorOptions \<Rightarrow> jsstring \<Rightarrow> FetchResult \<Rightarrow> PartialRecipe option \<Rightarrow>
   ExtractionResult" where
  "aiPath w opts url fr jsonLdRecipe =
     (if \<not> useLlm opts then
        failure w (ascii ''No structured data found and LLM extraction is disabled'') []
      else if \<not> hasApiKey w then
        failure w (ascii ''No structured data found and ANTHROPIC_API_KEY is not set'') []
      else
        (case parseWithLLM w (cleanedText fr) url jsonLdRecipe of
           Inr r \<Rightarrow>
             succeeded w
               (if \<not> truthy (imageUrl r)
                then r\<lparr> imageUrl := extractImageFromHtml w (html fr) \<rparr> else r) []
         | Inl e \<Rightarrow> failure w (ascii ''LLM extraction failed: '' @ errorMessage e) []))"

text \<open>
  \<open>RecipeExtractor.extract\<close> (the name \<open>extract\<close> is taken by Isabelle).  The calls
  of \<open>new URL\<close>, \<open>smartFetch\<close>, \<open>refineRecipe\<close> and \<open>parseWithLLM\<close> sit in
  \<open>try\<close> blocks of the method.  The call of \<open>parseRecipeFromHtml\<close> on line 90 sits
  in none: what it throws leaves the method, and the promise the method returns is
  rejected.
\<close>

definition extract_url ::
  "World \<Rightarrow> ExtractorOptions \<Rightarrow> jsstring \<Rightarrow> thrown + ExtractionResult" where
  "extract_url w opts url =
     (if \<not> urlIsValid w url then Inr (failure w (ascii ''Invalid URL provided'') [])
      else
        (case smartFetch w url (timeout opts) of
           Inl e \<Rightarrow> Inr (failure w (ascii ''Failed to fetch URL: '' @ errorMessage e) [])
         | Inr fetchResult \<Rightarrow>
             (case parseRecipeFromHtml w (html fetchResult) url of
                Inl e \<Rightarrow> Inl e
              | Inr jsonLdRecipe \<Rightarrow>
                  (case jsonLdRecipe of
                     None \<Rightarrow> Inr (aiPath w opts url fetchResult None)
                   | Some p \<Rightarrow>
                       if isValidRecipe (Some p)
                       then Inr (structuredPath w opts url fetchResult p)
                       else Inr (aiPath w opts url fetchResult (Some p))))))"

section \<open>Shapes of results and sample values\<close>

text \<open>The two shapes of an \<open>ExtractionResult\<close>.\<close>

definition wellFormedFailure :: "ExtractionResult \<Rightarrow> bool" where
  "wellFormedFailure res \<longleftrightarrow> \<not> success res \<and> recipe res = None \<and> error res \<noteq> None"

definition wellFormedSuccess :: "ExtractionResult \<Rightarrow> bool" where
  "wellFormedSuccess res \<longleftrightarrow> success res \<and> recipe res \<noteq> None \<and> error res = None"

text \<open>The method tag and the confidence of a returned recipe; nothing when the call threw.\<close>

definition methodAndConfidence :: "thrown + Recipe \<Rightarrow> (ExtractionMethod \<times> rat) option" where
  "methodAndConfidence x =
     (case x of Inl e \<Rightarrow> None | Inr r \<Rightarrow> Some (extractionMethod r, confidence r))"

text \<open>
  Concrete values on which the statements below are exercised: a structured record with
  a title, one ingredient and one step, one with two of each, an object returned by the
  model, a fetched page, and a world in which every collaborator succeeds.
\<close>

definition sampleIngredient :: Ingredient where
  "sampleIngredient =
     \<lparr> original = ascii ''salt'', item = ascii ''salt'', quantity = None, unit = None,
       comments = None \<rparr>"

definition emptyPartial :: PartialRecipe where
  "emptyPartial =
     \<lparr> p_title = None, p_description = None, p_language = None, p_sourceUrl = None,
       p_imageUrl = None, p_author = None, p_datePublished = None, p_ingredients = None,
       p_steps = None, p_tips = None, p_meta = None, p_nutrition = None,
       p_extractionMethod = None, p_confidence = None, p_kashrut = None, p_rawText = None \<rparr>"

definition smallPartial :: PartialRecipe where
  "smallPartial =
     emptyPartial
       \<lparr> p_title := Some (ascii ''Soup''),
         p_imageUrl := Some (ascii ''http://img''),
         p_author := Some (ascii ''Dana''),
         p_ingredients := Some [sampleIngredient],
         p_steps := Some [ascii ''Boil''] \<rparr>"

definition goodPartial :: PartialRecipe where
  "goodPartial =
     smallPartial
       \<lparr> p_ingredients := Some [sampleIngredient, sampleIngredient],
         p_steps := Some [ascii ''Boil'', ascii ''Serve''] \<rparr>"

definition sampleObject :: LLMObject where
  "sampleObject =
     \<lparr> o_title = ascii ''Soup'', o_description = None, o_language = En,
       o_ingredients = [sampleIngredient], o_steps = [ascii ''Boil''], o_tips = [],
       o_kashrut = Parve,
       o_meta = \<lparr> prepTime = None, cookTime = None, totalTime = None, servings = None,
                  difficulty = Easy, cuisine = None, category = None, dietary = [] \<rparr> \<rparr>"

definition samplePage :: FetchResult where
  "samplePage = \<lparr> html = ascii ''<html></html>'', cleanedText = ascii ''Soup. Boil.'' \<rparr>"

definition sampleWorld :: World where
  "sampleWorld =
     \<lparr> urlIsValid = (\<lambda>u. True),
       smartFetch = (\<lambda>u t. Inr samplePage),
       parseRecipeFromHtml = (\<lambda>h u. Inr (Some smallPartial)),
       generateObject = (\<lambda>t p. Inr sampleObject),
       ANTHROPIC_API_KEY = Some (ascii ''key''),
       extractImageFromHtml = (\<lambda>h. None),
       startTime = 0,
       endTime = 7 \<rparr>"

text \<open>A model call that always throws, and a page parser that throws.\<close>

definition failingModel :: "jsstring \<Rightarrow> PartialRecipe option \<Rightarrow> thrown + LLMObject" where
  "failingModel t p = Inl (Error (ascii ''overloaded''))"


section \<open>Properties of the validity test and of the model-assisted extractor\<close>

lemmas sample_defs = sampleWorld_def samplePage_def sampleObject_def smallPartial_def
  goodPartial_def emptyPartial_def sampleIngredient_def

lemma truthy_Some: "truthy x \<longleftrightarrow> (\<exists>t. x = Some t \<and> t \<noteq> [])"
  by (cases x) (auto simp: truthy_def)

lemma isValidRecipe_fields:
  assumes "isValidRecipe (Some p)"
  obtains t ings stps where "p_title p = Some t" "t \<noteq> []" "p_ingredients p = Some ings"
    "ings \<noteq> []" "p_steps p = Some stps" "stps \<noteq> []"
  using assms by (auto simp: isValidRecipe_def truthy_Some split: option.splits)

text \<open>
  C1 (as amended).  The specification says that a partial record with a non-empty title, exactly
  one ingredient and exactly one step is not valid, validity requiring more than one of
  each.  The code tests \<open>length > 0\<close>: such a record is valid, and a record is valid
  exactly when its title is non-empty and it has at least one ingredient and at least one
  step; \<open>null\<close> is not valid.
\<close>

theorem isValidRecipe_at_least_one:
  "(p_title p = Some t \<and> t \<noteq> [] \<and> p_ingredients p = Some ings \<and> length ings = 1 \<and>
      p_steps p = Some stps \<and> length stps = 1 \<longrightarrow> isValidRecipe (Some p)) \<and>
   (isValidRecipe (Some p) \<longleftrightarrow>
      (\<exists>t ings stps. p_title p = Some t \<and> t \<noteq> [] \<and>
         p_ingredients p = Some ings \<and> 1 \<le> length ings \<and>
         p_steps p = Some stps \<and> 1 \<le> length stps)) \<and>
   \<not> isValidRecipe None"
  by (auto simp: isValidRecipe_def truthy_Some Suc_le_eq split: option.splits)

theorem isValidRecipe_at_least_one_witness:
  "isValidRecipe (Some smallPartial)"
  using isValidRecipe_at_least_one
    [of smallPartial "ascii ''Soup''" "[sampleIngredient]" "[ascii ''Boil'']"]
  by (simp add: smallPartial_def emptyPartial_def ascii_def)

text \<open>
  C1 as stated fails: the sample record has the title "Soup", one ingredient and one step,
  and \<open>isValidRecipe\<close> accepts it.
\<close>

theorem isValidRecipe_one_of_each_counterexample:
  "isValidRecipe (Some smallPartial) \<and>
   p_title smallPartial = Some (ascii ''Soup'') \<and>
   map_option length (p_ingredients smallPartial) = Some 1 \<and>
   map_option length (p_steps smallPartial) = Some 1"
  by (simp add: isValidRecipe_def truthy_def smallPartial_def emptyPartial_def ascii_def)

lemma parseWithLLM_Inr:
  assumes "parseWithLLM w raw url pd = Inr r"
  shows "extractionMethod r = (case pd of None \<Rightarrow> LLM | Some p \<Rightarrow> Hybrid)"
    and "confidence r = (case pd of None \<Rightarrow> 75 / 100 | Some p \<Rightarrow> 85 / 100)"
    and "imageUrl r = (case pd of None \<Rightarrow> None | Some p \<Rightarrow> strOrNull (p_imageUrl p))"
    and "author r = (case pd of None \<Rightarrow> None | Some p \<Rightarrow> strOrNull (p_author p))"
    and "datePublished r = (case pd of None \<Rightarrow> None | Some p \<Rightarrow> strOrNull (p_datePublished p))"
    and "nutrition r = (case pd of None \<Rightarrow> None | Some p \<Rightarrow> p_nutrition p)"
  using assms by (auto simp: parseWithLLM_def Let_def split: sum.splits)

lemma parseWithLLM_returns:
  assumes "generateObject w (truncateText raw) pd = Inr obj"
  shows "\<exists>r. parseWithLLM w raw url pd = Inr r"
  using assms by (simp add: parseWithLLM_def Let_def)

text \<open>
  C6 (as amended).  A recipe that \<open>parseWithLLM\<close> returns without partial data has
  confidence 0.75 and the tag \<open>'llm'\<close> (the full-extraction tag); one it returns with
  partial data has confidence 0.85 and the tag \<open>'hybrid'\<close>.  \<open>refineRecipe\<close> passes the
  partial record on only when it has a non-empty title, at least two ingredients and at
  least two steps: then the recipe is 0.85 and \<open>'hybrid'\<close>, otherwise 0.75 and \<open>'llm'\<close>.
  Whenever the model call returns an object, \<open>parseWithLLM\<close> returns a recipe.
\<close>

theorem confidence_and_method_by_path:
  "(parseWithLLM w raw url None = Inr r \<longrightarrow>
      confidence r = 75 / 100 \<and> extractionMethod r = LLM) \<and>
   (parseWithLLM w raw url (Some p) = Inr r \<longrightarrow>
      confidence r = 85 / 100 \<and> extractionMethod r = Hybrid) \<and>
   (hasGoodData p \<and> refineRecipe w p raw url = Inr r \<longrightarrow>
      confidence r = 85 / 100 \<and> extractionMethod r = Hybrid) \<and>
   (\<not> hasGoodData p \<and> refineRecipe w p raw url = Inr r \<longrightarrow>
      confidence r = 75 / 100 \<and> extractionMethod r = LLM) \<and>
   (generateObject w (truncateText raw) pd = Inr obj \<longrightarrow>
      (\<exists>r'. parseWithLLM w raw url pd = Inr r'))"
proof (intro conjI impI)
  assume "parseWithLLM w raw url None = Inr r"
  from parseWithLLM_Inr(1,2)[OF this]
  show "confidence r = 75 / 100" and "extractionMethod r = LLM" by simp_all
next
  assume "parseWithLLM w raw url (Some p) = Inr r"
  from parseWithLLM_Inr(1,2)[OF this]
  show "confidence r = 85 / 100" and "extractionMethod r = Hybrid" by simp_all
next
  assume "hasGoodData p \<and> refineRecipe w p raw url = Inr r"
  then have "parseWithLLM w raw url (Some p) = Inr r" by (auto simp: refineRecipe_def)
  from parseWithLLM_Inr(1,2)[OF this]
  show "confidence r = 85 / 100" and "extractionMethod r = Hybrid" by simp_all
next
  assume "\<not> hasGoodData p \<and> refineRecipe w p raw url = Inr r"
  then have "parseWithLLM w raw url None = Inr r" by (auto simp: refineRecipe_def)
  from parseWithLLM_Inr(1,2)[OF this]
  show "confidence r = 75 / 100" and "extractionMethod r = LLM" by simp_all
next
  assume "generateObject w (truncateText raw) pd = Inr obj"
  then show "\<exists>r'. parseWithLLM w raw url pd = Inr r'" by (rule parseWithLLM_returns)
qed

theorem confidence_and_method_by_path_witness:
  "methodAndConfidence
     (refineRecipe sampleWorld goodPartial (ascii ''Soup. Boil.'') (ascii ''http://x''))
     = Some (Hybrid, 85 / 100) \<and>
   methodAndConfidence
     (parseWithLLM sampleWorld (ascii ''Soup. Boil.'') (ascii ''http://x'') None)
     = Some (LLM, 75 / 100)"
proof -
  have g: "hasGoodData goodPartial"
    by (simp add: hasGoodData_def truthy_def sample_defs ascii_def)
  have m: "generateObject sampleWorld t pd = Inr sampleObject" for t pd
    by (simp add: sampleWorld_def)
  from parseWithLLM_returns[OF m] g
  obtain r where
    r: "refineRecipe sampleWorld goodPartial (ascii ''Soup. Boil.'') (ascii ''http://x'') = Inr r"
    unfolding refineRecipe_def by atomize_elim simp
  from parseWithLLM_returns[OF m]
  obtain r' where
    r': "parseWithLLM sampleWorld (ascii ''Soup. Boil.'') (ascii ''http://x'') None = Inr r'"
    by blast
  from confidence_and_method_by_path
    [of sampleWorld "ascii ''Soup. Boil.''" "ascii ''http://x''" r goodPartial None sampleObject]
    confidence_and_method_by_path
    [of sampleWorld "ascii ''Soup. Boil.''" "ascii ''http://x''" r' goodPartial None sampleObject]
    r r' g
  show ?thesis by (simp add: methodAndConfidence_def)
qed

text \<open>
  C6 as stated fails for \<open>refineRecipe\<close>: the sample record with one ingredient and one
  step is a valid structured record, and refining it gives a recipe tagged \<open>'llm'\<close> with
  confidence 0.75.
\<close>

theorem refine_always_hybrid_counterexample:
  "isValidRecipe (Some smallPartial) \<and>
   methodAndConfidence
     (refineRecipe sampleWorld smallPartial (ascii ''Soup. Boil.'') (ascii ''http://x''))
     = Some (LLM, 75 / 100)"
  by (simp add: isValidRecipe_def truthy_def methodAndConfidence_def refineRecipe_def
      hasGoodData_def parseWithLLM_def Let_def sample_defs ascii_def)

text \<open>
  C10.  For a structured record that passes \<open>isValidRecipe\<close> but has fewer than two
  ingredients or fewer than two steps, \<open>refineRecipe\<close> is the full extraction without
  partial data: a returned recipe has the tag \<open>'llm'\<close> and confidence 0.75, and its
  image, author, publication date and nutrition are \<open>null\<close> whatever the record held.
  A recipe is returned whenever the model call returns an object.
\<close>

theorem refine_small_partial_is_full_extraction:
  assumes "isValidRecipe (Some p)"
    and "p_ingredients p = Some ings" and "p_steps p = Some stps"
    and "length ings < 2 \<or> length stps < 2"
  shows "refineRecipe w p raw url = parseWithLLM w raw url None \<and>
         (refineRecipe w p raw url = Inr r \<longrightarrow>
            extractionMethod r = LLM \<and> confidence r = 75 / 100 \<and> imageUrl r = None \<and>
            author r = None \<and> datePublished r = None \<and> nutrition r = None) \<and>
         (generateObject w (truncateText raw) None = Inr obj \<longrightarrow>
            (\<exists>r'. refineRecipe w p raw url = Inr r'))"
proof -
  have "\<not> hasGoodData p"
    using assms(2-4) by (auto simp: hasGoodData_def)
  then have eq: "refineRecipe w p raw url = parseWithLLM w raw url None"
    by (simp add: refineRecipe_def)
  show ?thesis
    using eq parseWithLLM_Inr[of w raw url None r] parseWithLLM_returns[of w raw None obj url]
    by auto
qed

theorem refine_small_partial_is_full_extraction_witness:
  "isValidRecipe (Some smallPartial) \<and>
   p_imageUrl smallPartial = Some (ascii ''http://img'') \<and>
   (\<exists>r. refineRecipe sampleWorld smallPartial (ascii ''Soup. Boil.'') (ascii ''http://x'') = Inr r \<and>
        extractionMethod r = LLM \<and> confidence r = 75 / 100 \<and> imageUrl r = None \<and>
        author r = None \<and> datePublished r = None \<and> nutrition r = None)"
proof -
  have v: "isValidRecipe (Some smallPartial)"
    by (simp add: isValidRecipe_def truthy_def sample_defs ascii_def)
  have i: "p_ingredients smallPartial = Some [sampleIngredient]"
    and s: "p_steps smallPartial = Some [ascii ''Boil'']"
    and u: "p_imageUrl smallPartial = Some (ascii ''http://img'')"
    by (simp_all add: smallPartial_def emptyPartial_def)
  have l: "length [sampleIngredient] < 2 \<or> length [ascii ''Boil''] < 2" by simp
  have g: "generateObject sampleWorld (truncateText (ascii ''Soup. Boil.'')) None = Inr sampleObject"
    by (simp add: sampleWorld_def)
  note t = refine_small_partial_is_full_extraction[OF v i s l,
      of sampleWorld "ascii ''Soup. Boil.''" "ascii ''http://x''" _ sampleObject]
  from t g obtain r' where
    r': "refineRecipe sampleWorld smallPartial (ascii ''Soup. Boil.'') (ascii ''http://x'') = Inr r'"
    by blast
  from refine_small_partial_is_full_extraction[OF v i s l,
      of sampleWorld "ascii ''Soup. Boil.''" "ascii ''http://x''" r' sampleObject] r' v u
  show ?thesis by blast
qed

section \<open>Properties of the orchestrator\<close>

lemma failure_wellFormed: "wellFormedFailure (failure w msg ws)"
  by (simp add: wellFormedFailure_def failure_def)

lemma succeeded_wellFormed: "wellFormedSuccess (succeeded w r ws)"
  by (simp add: wellFormedSuccess_def succeeded_def)

lemma aiPath_failure:
  assumes "\<not> useLlm opts \<or> \<not> hasApiKey w \<or> parseWithLLM w (cleanedText fr) url pd = Inl e"
  shows "wellFormedFailure (aiPath w opts url fr pd)"
  using assms by (auto simp: aiPath_def failure_wellFormed)

lemma aiPath_wellFormed:
  "wellFormedFailure (aiPath w opts url fr pd) \<or> wellFormedSuccess (aiPath w opts url fr pd)"
  by (cases "parseWithLLM w (cleanedText fr) url pd")
    (simp_all add: aiPath_def failure_wellFormed succeeded_wellFormed)

lemma structuredPath_wellFormed: "wellFormedSuccess (structuredPath w opts url fr p)"
  by (cases "refineRecipe w p (cleanedText fr) url")
    (simp_all add: structuredPath_def succeeded_wellFormed)

lemma extract_url_no_structured:
  assumes "urlIsValid w url" and "smartFetch w url (timeout opts) = Inr fr"
    and "parseRecipeFromHtml w (html fr) url = Inr pd" and "\<not> isValidRecipe pd"
  shows "extract_url w opts url = Inr (aiPath w opts url fr pd)"
  using assms by (cases pd) (simp_all add: extract_url_def)

text \<open>
  C2.  When the address is well formed, the page was fetched, the structured parse gave a
  record that satisfies \<open>isValidRecipe\<close>, refinement is attempted (the model is enabled
  and a key is present) and \<open>refineRecipe\<close> throws, \<open>extract\<close> returns a successful
  result whose warnings are the one message "LLM refinement failed: ..." pushed by the
  handler, and whose recipe is the structured record with nothing dropped: its title,
  ingredients and steps as they are; its description, image, author and date, \<open>null\<close>
  where absent or empty; its language, tips and metadata, with the defaults \<open>'en'\<close>,
  no tips and empty metadata where absent; its nutrition; the address as source; the tag
  \<open>'json-ld'\<close> and confidence 0.9; no kashrut and no raw text.
\<close>

theorem refinement_failure_keeps_structured:
  assumes "urlIsValid w url"
    and "smartFetch w url (timeout opts) = Inr fr"
    and "parseRecipeFromHtml w (html fr) url = Inr (Some p)"
    and "isValidRecipe (Some p)"
    and "useLlm opts" and "hasApiKey w"
    and "refineRecipe w p (cleanedText fr) url = Inl e"
  shows "\<exists>t ings stps.
           p_title p = Some t \<and> t \<noteq> [] \<and>
           p_ingredients p = Some ings \<and> ings \<noteq> [] \<and>
           p_steps p = Some stps \<and> stps \<noteq> [] \<and>
           extract_url w opts url =
             Inr \<lparr> success = True,
                   recipe = Some
                     \<lparr> title = t,
                       description =
                         (case p_description p of None \<Rightarrow> None
                          | Some s \<Rightarrow> if s = [] then None else Some s),
                       language = (case p_language p of None \<Rightarrow> En | Some l \<Rightarrow> l),
                       sourceUrl = url,
                       imageUrl =
                         (case p_imageUrl p of None \<Rightarrow> None
                          | Some s \<Rightarrow> if s = [] then None else Some s),
                       author =
                         (case p_author p of None \<Rightarrow> None
                          | Some s \<Rightarrow> if s = [] then None else Some s),
                       datePublished =
                         (case p_datePublished p of None \<Rightarrow> None
                          | Some s \<Rightarrow> if s = [] then None else Some s),
                       ingredients = ings,
                       steps = stps,
                       tips = (case p_tips p of None \<Rightarrow> [] | Some ts \<Rightarrow> ts),
                       meta =
                         (case p_meta p of
                            None \<Rightarrow>
                              \<lparr> prepTime = None, cookTime = None, totalTime = None,
                                servings = None, difficulty = DifficultyUnknown,
                                cuisine = None, category = None, dietary = [] \<rparr>
                          | Some m \<Rightarrow> m),
                       nutrition = p_nutrition p,
                       extractionMethod = JsonLd,
                       confidence = 9 / 10,
                       kashrut = None,
                       rawText = None \<rparr>,
                   error = None,
                   warnings = [ascii ''LLM refinement failed: '' @ errorMessage e],
                   processingTimeMs = endTime w - startTime w \<rparr>"
proof -
  from assms(4) obtain t ings stps where f: "p_title p = Some t" "t \<noteq> []"
    "p_ingredients p = Some ings" "ings \<noteq> []" "p_steps p = Some stps" "stps \<noteq> []"
    by (rule isValidRecipe_fields)
  have "extract_url w opts url = Inr (structuredPath w opts url fr p)"
    using assms(1-4) by (simp add: extract_url_def)
  also have "structuredPath w opts url fr p =
      succeeded w (jsonLdOnly p url) [ascii ''LLM refinement failed: '' @ errorMessage e]"
    using assms(5-7) by (simp add: structuredPath_def)
  finally have "extract_url w opts url =
      Inr (succeeded w (jsonLdOnly p url) [ascii ''LLM refinement failed: '' @ errorMessage e])" .
  then show ?thesis
    using f
    by (simp add: succeeded_def jsonLdOnly_def strOr_def strOrNull_def truthy_def objOr_def
        split: option.splits)
qed

theorem refinement_failure_keeps_structured_witness:
  "extract_url (sampleWorld\<lparr>generateObject := failingModel\<rparr>) DEFAULT_OPTIONS (ascii ''http://x'') =
     Inr \<lparr> success = True,
           recipe = Some
             \<lparr> title = ascii ''Soup'', description = None, language = En,
               sourceUrl = ascii ''http://x'', imageUrl = Some (ascii ''http://img''),
               author = Some (ascii ''Dana''), datePublished = None,
               ingredients = [sampleIngredient], steps = [ascii ''Boil''], tips = [],
               meta = \<lparr> prepTime = None, cookTime = None, totalTime = None, servings = None,
                        difficulty = DifficultyUnknown, cuisine = None, category = None,
                        dietary = [] \<rparr>,
               nutrition = None, extractionMethod = JsonLd, confidence = 9 / 10,
               kashrut = None, rawText = None \<rparr>,
           error = None,
           warnings = [ascii ''LLM refinement failed: Failed to parse recipe with LLM: overloaded''],
           processingTimeMs = 7 \<rparr>"
proof -
  let ?w = "sampleWorld\<lparr>generateObject := failingModel\<rparr>"
  let ?u = "ascii ''http://x''"
  let ?e = "Error (ascii ''Failed to parse recipe with LLM: '' @
                    errorMessage (Error (ascii ''overloaded'')))"
  have h1: "urlIsValid ?w ?u" by (simp add: sampleWorld_def)
  have h2: "smartFetch ?w ?u (timeout DEFAULT_OPTIONS) = Inr samplePage"
    by (simp add: sampleWorld_def)
  have h3: "parseRecipeFromHtml ?w (html samplePage) ?u = Inr (Some smallPartial)"
    by (simp add: sampleWorld_def)
  have h4: "isValidRecipe (Some smallPartial)"
    by (simp add: isValidRecipe_def truthy_def sample_defs ascii_def)
  have h5: "useLlm DEFAULT_OPTIONS" by (simp add: DEFAULT_OPTIONS_def)
  have h6: "hasApiKey ?w" by (simp add: hasApiKey_def truthy_def sampleWorld_def ascii_def)
  have h7: "refineRecipe ?w smallPartial (cleanedText samplePage) ?u = Inl ?e"
    by (simp add: refineRecipe_def parseWithLLM_def failingModel_def sampleWorld_def)
  from refinement_failure_keeps_structured[OF h1 h2 h3 h4 h5 h6 h7]
  show ?thesis
    by (auto simp: errorMessage_def ascii_def sampleWorld_def smallPartial_def emptyPartial_def)
qed

text \<open>
  When the page parser returns, \<open>extract\<close> returns a result of one of the two shapes,
  and a failure in each of the five cases: the address is malformed; the fetch throws;
  there is no valid structured record and the model is disabled; there is none and the
  key is missing; there is none and the model-assisted extraction throws.
\<close>

lemma extract_url_results_when_parsed:
  "(\<not> urlIsValid w url \<longrightarrow>
      (\<exists>res. extract_url w opts url = Inr res \<and> wellFormedFailure res)) \<and>
   (urlIsValid w url \<and> smartFetch w url (timeout opts) = Inl e \<longrightarrow>
      (\<exists>res. extract_url w opts url = Inr res \<and> wellFormedFailure res)) \<and>
   (urlIsValid w url \<and> smartFetch w url (timeout opts) = Inr fr \<and>
      parseRecipeFromHtml w (html fr) url = Inr pd \<and> \<not> isValidRecipe pd \<and>
      (\<not> useLlm opts \<or> \<not> hasApiKey w \<or> parseWithLLM w (cleanedText fr) url pd = Inl e) \<longrightarrow>
      (\<exists>res. extract_url w opts url = Inr res \<and> wellFormedFailure res)) \<and>
   (urlIsValid w url \<and> smartFetch w url (timeout opts) = Inr fr \<and>
      parseRecipeFromHtml w (html fr) url = Inr pd \<longrightarrow>
      (\<exists>res. extract_url w opts url = Inr res \<and>
         (wellFormedFailure res \<or> wellFormedSuccess res)))"
proof (intro conjI impI)
  assume "\<not> urlIsValid w url"
  then show "\<exists>res. extract_url w opts url = Inr res \<and> wellFormedFailure res"
    by (simp add: extract_url_def failure_wellFormed)
next
  assume "urlIsValid w url \<and> smartFetch w url (timeout opts) = Inl e"
  then show "\<exists>res. extract_url w opts url = Inr res \<and> wellFormedFailure res"
    by (simp add: extract_url_def failure_wellFormed)
next
  assume a: "urlIsValid w url \<and> smartFetch w url (timeout opts) = Inr fr \<and>
      parseRecipeFromHtml w (html fr) url = Inr pd \<and> \<not> isValidRecipe pd \<and>
      (\<not> useLlm opts \<or> \<not> hasApiKey w \<or> parseWithLLM w (cleanedText fr) url pd = Inl e)"
  then have "wellFormedFailure (aiPath w opts url fr pd)"
    using aiPath_failure by blast
  with a show "\<exists>res. extract_url w opts url = Inr res \<and> wellFormedFailure res"
    by (simp add: extract_url_no_structured)
next
  assume a: "urlIsValid w url \<and> smartFetch w url (timeout opts) = Inr fr \<and>
      parseRecipeFromHtml w (html fr) url = Inr pd"
  show "\<exists>res. extract_url w opts url = Inr res \<and>
         (wellFormedFailure res \<or> wellFormedSuccess res)"
  proof (cases "isValidRecipe pd")
    case False
    with a show ?thesis
      using aiPath_wellFormed by (simp add: extract_url_no_structured)
  next
    case True
    then obtain p where "pd = Some p"
      by (cases pd) (simp_all add: isValidRecipe_def)
    with True a show ?thesis
      by (simp add: extract_url_def structuredPath_wellFormed)
  qed
qed



section \<open>Properties of the ingredient-line parser\<close>

text \<open>The doubles of the numerals read in the lines below.\<close>

lemma roundToDouble_values:
  "roundToDouble 1 = Num 1"
  "roundToDouble 2 = Num 2"
  "roundToDouble (3 / 2) = Num (3 / 2)"
  by code_simp+

lemmas parser_defs = parseIngredient_def workingValues_def extractComment_def extractQuantity_def
  extractUnit_def cleanItem_def removeHebrewUnit_def removeEnglishUnits_def parseUnit_def
  parseHebrewNumber_def HEBREW_UNIT_MAP_def HEBREW_FRACTION_MAP_def HEBREW_NUMBER_MAP_def
  englishUnits_def englishUnitWords_def ascii_def trim_def isWhiteSpace_def isDigit_def
  isWordChar_def numMatch_def commentAt_def fractionAt_def mixedAt_def unitAt_def
  wordBoundary_def removeUnitRegex_def stripConnector_def stripLeadingDash_def
  collapseWhitespace_def parseFloat_def signPart_def exponentPart_def scale10_def
  digitsValue_def numDiv_def numAddNat_def lowerUnit_def toLowerCase_def foldCase_def Let_def
  roundToDouble_values

text \<open>
  C9.  For every line whose trimmed text is non-empty, the ingredient returned by
  \<open>parseIngredient\<close> has a non-empty \<open>item\<close>; its \<open>original\<close> is the trimmed line;
  when the parsing steps leave nothing for the item, \<open>item\<close> is that whole original
  line, and otherwise it is what the steps left.
\<close>

theorem parseIngredient_item_nonempty:
  assumes "trim line \<noteq> []"
  shows "item (parseIngredient line) \<noteq> [] \<and>
         original (parseIngredient line) = trim line \<and>
         (fst (workingValues (trim line)) = [] \<longrightarrow> item (parseIngredient line) = trim line) \<and>
         (fst (workingValues (trim line)) \<noteq> [] \<longrightarrow>
            item (parseIngredient line) = fst (workingValues (trim line)))"
  using assms by (simp add: parseIngredient_def Let_def split: prod.splits)

lemma two_cups_working: "fst (workingValues (trim (ascii ''2 cups''))) = []"
  by (simp add: parser_defs)

text \<open>The line "2 cups": quantity and unit use up the text, and the item is the line.\<close>

theorem parseIngredient_item_nonempty_witness:
  "trim (ascii ''2 cups'') \<noteq> [] \<and>
   item (parseIngredient (ascii ''2 cups'')) = ascii ''2 cups'' \<and>
   item (parseIngredient (ascii ''2 cups'')) \<noteq> []"
proof -
  have t: "trim (ascii ''2 cups'') = ascii ''2 cups''"
    by (simp add: trim_def ascii_def isWhiteSpace_def)
  then have n: "trim (ascii ''2 cups'') \<noteq> []" by (simp add: ascii_def)
  from parseIngredient_item_nonempty[OF n] two_cups_working t n
  show ?thesis by simp
qed

text \<open>
  C3.  The specification expects, for the line "2 kosot qemah" (2 cups of flour), the item
  "qemah", quantity 2, unit cup and no comment.  Quantity, unit and comment come out so,
  but the item is "vav-tav qemah": the loop that removes the unit takes the first word of
  the unit table that occurs in the text, which is the singular "kos", a prefix of the
  plural "kosot", and the plural ending stays in the item.
\<close>

theorem two_cups_flour_hebrew:
  "parseIngredient [50, SPACE, KAF, VAV, SAMEKH, VAV, TAV, SPACE, QOF, MEM, HET] =
     \<lparr> original = [50, SPACE, KAF, VAV, SAMEKH, VAV, TAV, SPACE, QOF, MEM, HET],
       item = [VAV, TAV, SPACE, QOF, MEM, HET],
       quantity = Some (Num 2), unit = Some Cup, comments = None \<rparr>"
  by (simp add: parser_defs)

text \<open>
  C4.  The specification expects that each word of the fraction table, put before a unit and an
  item, gives its tabled value.  The loop stops at the first table entry that occurs in
  the line, and "shlish" (0.333) and "reva" (0.25) stand in the table before the
  compound words that contain them: "shney shlish kos sukar" gets 0.333 where the table
  says 0.667, and "shloshet rivey kos sukar" gets 0.25 where the table says 0.75.
\<close>

theorem compound_fraction_words_shadowed:
  "quantity (parseIngredient
      ([SHIN, NUN, YOD, SPACE, SHIN, LAMED, YOD, SHIN] @
       [SPACE, KAF, VAV, SAMEKH, SPACE, SAMEKH, VAV, KAF, RESH])) = Some (Num (333 / 1000)) \<and>
   firstEqual [SHIN, NUN, YOD, SPACE, SHIN, LAMED, YOD, SHIN] HEBREW_FRACTION_MAP
     = Some (Num (667 / 1000)) \<and>
   quantity (parseIngredient
      ([SHIN, LAMED, VAV, SHIN, TAV, SPACE, RESH, BET, AYIN, YOD] @
       [SPACE, KAF, VAV, SAMEKH, SPACE, SAMEKH, VAV, KAF, RESH])) = Some (Num (25 / 100)) \<and>
   firstEqual [SHIN, LAMED, VAV, SHIN, TAV, SPACE, RESH, BET, AYIN, YOD] HEBREW_FRACTION_MAP
     = Some (Num (75 / 100))"
  by (simp add: parser_defs)

text \<open>
  The four simple words (hatsi, reva, shlish, shminit) before "kos sukar" do give their
  tabled values.
\<close>

lemma simple_fraction_words:
  "quantity (parseIngredient
      ([HET, TSADI, YOD] @ [SPACE, KAF, VAV, SAMEKH, SPACE, SAMEKH, VAV, KAF, RESH]))
     = Some (Num (5 / 10))"
  "quantity (parseIngredient
      ([RESH, BET, AYIN] @ [SPACE, KAF, VAV, SAMEKH, SPACE, SAMEKH, VAV, KAF, RESH]))
     = Some (Num (25 / 100))"
  "quantity (parseIngredient
      ([SHIN, LAMED, YOD, SHIN] @ [SPACE, KAF, VAV, SAMEKH, SPACE, SAMEKH, VAV, KAF, RESH]))
     = Some (Num (333 / 1000))"
  "quantity (parseIngredient
      ([SHIN, MEM, YOD, NUN, YOD, TAV] @ [SPACE, KAF, VAV, SAMEKH, SPACE, SAMEKH, VAV, KAF, RESH]))
     = Some (Num (125 / 1000))"
  by (simp_all add: parser_defs)

text \<open>
  C5.  The specification expects 0.5 for "1/2 cup sugar" and 1.5 for "1 1/2 cups flour".
  \<open>parseHebrewNumber\<close> reaches the slash and mixed-number rules only when
  \<open>parseFloat\<close> gives NaN, and \<open>parseFloat\<close> reads the leading "1" of both runs:
  both lines get quantity 1.
\<close>

theorem slash_fractions_read_as_integer:
  "quantity (parseIngredient (ascii ''1/2 cup sugar'')) = Some (Num 1) \<and>
   quantity (parseIngredient (ascii ''1 1/2 cups flour'')) = Some (Num 1) \<and>
   parseHebrewNumber (ascii ''1/2'') = Some (Num 1) \<and>
   parseHebrewNumber (ascii ''1 1/2'') = Some (Num 1)"
  by (simp add: parser_defs)

text \<open>
  \<open>parseFloat\<close> gives the nearest double: 9007199254740993 is read as
  9007199254740992.
\<close>

lemma parseFloat_rounds:
  "parseFloat (ascii ''9007199254740993'') = Num 9007199254740992"
proof -
  have "roundToDouble 9007199254740993 = Num 9007199254740992" by code_simp
  then show ?thesis
    by (simp add: parseFloat_def signPart_def exponentPart_def scale10_def digitsValue_def
        isDigit_def isWhiteSpace_def ascii_def Let_def)
qed

text \<open>The slash rule does apply to a run that \<open>parseFloat\<close> cannot read.\<close>

lemma slash_rule_when_reached:
  "parseHebrewNumber (ascii ''/ 1/2'') = Some (Num (1 / 2))"
  by (simp add: parser_defs)

section \<open>Properties of formatQuantity\<close>













text \<open>
  Decimals that are not doubles are printed from the double they stand for: 0.15 and 0.95
  lie below the decimal written, and round down.
\<close>

lemma formatQuantity_rounds_the_double:
  "formatQuantity (Some (Num (15 / 100))) = ascii ''0.1''"
  "formatQuantity (Some (Num (95 / 100))) = ascii ''0.9''"
  "formatQuantity (Some (Num (12 / 5))) = ascii ''2.4''"
  "formatQuantity (Some (Num 2)) = ascii ''2''"
  by code_simp+






end
